theory Spec2Isabelle
  imports Complex_Main
begin

section \<open>Errors raised by the service code\<close>

text \<open>
  Every exception the modelled Python code can raise is a value of this type; a function
  that may raise returns \<open>error + 'a\<close>, with \<open>Inl\<close> for the raised exception.
\<close>

datatype error =
    ValueError
  | KeyError string
  | IndexError
  | AttributeError
  | ZeroDivisionError
  | NotFound string
  | RequestFail nat
  | NameError string

section \<open>Dates: \<open>get_date_from_str\<close> (src/wlts/datasource.py)\<close>

text \<open>
  A \<open>datetime\<close> built by \<open>strptime\<close> from the formats \<open>%Y-%m-%d\<close>, \<open>%Y-%m\<close> and
  \<open>%Y\<close> always has time 00:00:00, so only the calendar fields are kept.
\<close>

record datetime =
  year :: nat
  month :: nat
  day :: nat

definition is_digit :: "char \<Rightarrow> bool" where
  "is_digit c = (c \<in> set ''0123456789'')"

definition digit_val :: "char \<Rightarrow> nat" where
  "digit_val c = of_char c - 48"

text \<open>
  The regular expressions \<open>strptime\<close> compiles for the directives. Each matcher returns
  the ways its group can match a prefix of the text, in the order the alternatives are
  tried, as pairs of the value read and the rest of the text.
  \<^item> \<open>%Y\<close> is \<open>\d\d\d\d\<close>;
  \<^item> \<open>%m\<close> is \<open>1[0-2]|0[1-9]|[1-9]\<close>;
  \<^item> \<open>%d\<close> is \<open>3[0-1]|[1-2]\d|0[1-9]|[1-9]| [1-9]\<close>.
\<close>

fun match_Y :: "string \<Rightarrow> (nat \<times> string) list" where
  "match_Y (a # b # c # d # r) =
     (if is_digit a \<and> is_digit b \<and> is_digit c \<and> is_digit d
      then [(1000 * digit_val a + 100 * digit_val b + 10 * digit_val c + digit_val d, r)]
      else [])"
| "match_Y _ = []"

definition is_nonzero_digit :: "char \<Rightarrow> bool" where
  "is_nonzero_digit c = (c \<in> set ''123456789'')"

fun two_chars :: "(char \<Rightarrow> bool) \<Rightarrow> (char \<Rightarrow> bool) \<Rightarrow> string \<Rightarrow> (nat \<times> string) list" where
  "two_chars p q (a # b # r) =
     (if p a \<and> q b then [(10 * digit_val a + digit_val b, r)] else [])"
| "two_chars p q _ = []"

fun one_char :: "(char \<Rightarrow> bool) \<Rightarrow> string \<Rightarrow> (nat \<times> string) list" where
  "one_char p (a # r) = (if p a then [(digit_val a, r)] else [])"
| "one_char p [] = []"

fun space_digit :: "string \<Rightarrow> (nat \<times> string) list" where
  "space_digit (a # b # r) =
     (if a = CHR '' '' \<and> is_nonzero_digit b then [(digit_val b, r)] else [])"
| "space_digit _ = []"

definition match_m :: "string \<Rightarrow> (nat \<times> string) list" where
  "match_m s =
     two_chars (\<lambda>c. c = CHR ''1'') (\<lambda>c. c \<in> set ''012'') s
     @ two_chars (\<lambda>c. c = CHR ''0'') is_nonzero_digit s
     @ one_char is_nonzero_digit s"

definition match_d :: "string \<Rightarrow> (nat \<times> string) list" where
  "match_d s =
     two_chars (\<lambda>c. c = CHR ''3'') (\<lambda>c. c \<in> set ''01'') s
     @ two_chars (\<lambda>c. c \<in> set ''12'') is_digit s
     @ two_chars (\<lambda>c. c = CHR ''0'') is_nonzero_digit s
     @ one_char is_nonzero_digit s
     @ space_digit s"

fun match_dash :: "string \<Rightarrow> string list" where
  "match_dash (a # r) = (if a = CHR ''-'' then [r] else [])"
| "match_dash [] = []"

text \<open>
  The three format strings. \<open>re.match\<close> returns the first complete match in backtracking
  order: the head of the list of all matches. Month and day default to 1 when the format
  has no directive for them.
\<close>

definition matches_Ymd :: "string \<Rightarrow> ((nat \<times> nat \<times> nat) \<times> string) list" where
  "matches_Ymd s =
     concat (map (\<lambda>(y, r1).
       concat (map (\<lambda>r2.
         concat (map (\<lambda>(m, r3).
           concat (map (\<lambda>r4.
             map (\<lambda>(d, r5). ((y, m, d), r5)) (match_d r4))
           (match_dash r3)))
         (match_m r2)))
       (match_dash r1)))
     (match_Y s))"

definition matches_Ym :: "string \<Rightarrow> ((nat \<times> nat \<times> nat) \<times> string) list" where
  "matches_Ym s =
     concat (map (\<lambda>(y, r1).
       concat (map (\<lambda>r2.
         map (\<lambda>(m, r3). ((y, m, 1), r3)) (match_m r2))
       (match_dash r1)))
     (match_Y s))"

definition matches_Yonly :: "string \<Rightarrow> ((nat \<times> nat \<times> nat) \<times> string) list" where
  "matches_Yonly s = map (\<lambda>(y, r1). ((y, 1, 1), r1)) (match_Y s)"

definition is_leap :: "nat \<Rightarrow> bool" where
  "is_leap y = (if y mod 400 = 0 then True else if y mod 100 = 0 then False else y mod 4 = 0)"

definition days_in_month :: "nat \<Rightarrow> nat \<Rightarrow> nat" where
  "days_in_month y m =
     (if m = 2 then (if is_leap y then 29 else 28)
      else if m \<in> {4, 6, 9, 11} then 30 else 31)"

text \<open>
  The constructor of \<open>datetime\<close>: years 1 to 9999, months 1 to 12, a day the month has;
  anything else is a \<open>ValueError\<close>.
\<close>

definition mk_datetime :: "nat \<Rightarrow> nat \<Rightarrow> nat \<Rightarrow> error + datetime" where
  "mk_datetime y m d =
     (if 1 \<le> y \<and> y \<le> 9999 \<and> 1 \<le> m \<and> m \<le> 12 \<and> 1 \<le> d \<and> d \<le> days_in_month y m
      then Inr \<lparr>year = y, month = m, day = d\<rparr>
      else Inl ValueError)"

text \<open>
  \<open>datetime.strptime(text, format)\<close>: no match is a \<open>ValueError\<close>, text left after the
  match is a \<open>ValueError\<close> (unconverted data remains), and so is a date that does not
  exist.
\<close>

definition strptime :: "(string \<Rightarrow> ((nat \<times> nat \<times> nat) \<times> string) list) \<Rightarrow> string \<Rightarrow> error + datetime" where
  "strptime fmt s =
     (case fmt s of
        [] \<Rightarrow> Inl ValueError
      | ((y, m, d), rest) # _ \<Rightarrow>
          (if rest = [] then mk_datetime y m d else Inl ValueError))"

definition replace_slash :: "string \<Rightarrow> string" where
  "replace_slash s = map (\<lambda>c. if c = CHR ''/'' then CHR ''-'' else c) s"

text \<open>
  \<^verbatim>\<open>
  def get_date_from_str(date, date_ref=None):
      date = date.replace('/', '-')
      try:
          date = datetime.strptime(date, '%Y-%m-%d')
      except ValueError:
          try:
              date = datetime.strptime(date, '%Y-%m')
          except ValueError:
              date = datetime.strptime(date, '%Y')
      if date_ref:
          date = date.replace(day=31, month=12)
      return date
  \<close>
  The flag \<open>date_ref\<close> is modelled by its truth value.
\<close>

definition parse_formats :: "string \<Rightarrow> error + datetime" where
  "parse_formats s =
     (case strptime matches_Ymd s of
        Inr d \<Rightarrow> Inr d
      | Inl ValueError \<Rightarrow>
          (case strptime matches_Ym s of
             Inr d \<Rightarrow> Inr d
           | Inl ValueError \<Rightarrow> strptime matches_Yonly s
           | Inl e \<Rightarrow> Inl e)
      | Inl e \<Rightarrow> Inl e)"

definition get_date_from_str :: "string \<Rightarrow> bool \<Rightarrow> error + datetime" where
  "get_date_from_str date date_ref =
     (case parse_formats (replace_slash date) of
        Inl e \<Rightarrow> Inl e
      | Inr d \<Rightarrow> Inr (if date_ref then d\<lparr>day := 31, month := 12\<rparr> else d))"

text \<open>The order of \<open>datetime\<close> values: by year, then month, then day.\<close>

definition date_less :: "datetime \<Rightarrow> datetime \<Rightarrow> bool" where
  "date_less a b =
     (year a < year b
      \<or> (year a = year b \<and> (month a < month b \<or> (month a = month b \<and> day a < day b))))"


section \<open>Python values shared by the backends\<close>

text \<open>
  A dictionary of strings (\<open>obs\<close>, \<open>temporal\<close>, \<open>geom_property\<close>, a connection info) is
  an association list; \<open>d[k]\<close> raises \<open>KeyError\<close> when the key is absent. Values that the
  code only formats into text (an SRID, a port) are kept as that text.
\<close>

type_synonym pydict = "(string \<times> string) list"

definition getitem :: "(string \<times> 'v) list \<Rightarrow> string \<Rightarrow> error + 'v" where
  "getitem d k = (case map_of d k of None \<Rightarrow> Inl (KeyError k) | Some v \<Rightarrow> Inr v)"

definition bind_err :: "error + 'a \<Rightarrow> ('a \<Rightarrow> error + 'b) \<Rightarrow> error + 'b" where
  "bind_err m f = (case m of Inl e \<Rightarrow> Inl e | Inr v \<Rightarrow> f v)"

text \<open>
  An optional date bound is \<open>None\<close> or a string; \<open>if (start_date):\<close> is true for a
  non-empty string only.
\<close>

definition truthy :: "string option \<Rightarrow> bool" where
  "truthy b = (case b of None \<Rightarrow> False | Some s \<Rightarrow> s \<noteq> [])"


text \<open>
  The classification object, read through \<open>get_name\<close>, \<open>get_id\<close>,
  \<open>get_class_property_name\<close> and \<open>get_type\<close>.
\<close>

record classification_class =
  get_name :: string
  get_id :: string
  get_class_property_name :: string
  get_type :: string

section \<open>The database backend: \<open>PostGisDataSource.get_trajectory\<close>\<close>





text \<open>
  The SQL executor is the database seen from the connection: given the database's state
  and a query text it answers with the rows (or raises) and leaves a new state. A row is
  the list of its column values.
  \<^verbatim>\<open>
  return self.execute_query(sql)[0] if self.execute_query(sql) else None
  \<close>
  The condition is evaluated first, and the query is executed a second time for the value.
\<close>

type_synonym row = "string list"

type_synonym 'db executor = "'db \<Rightarrow> string \<Rightarrow> (error + row list) \<times> 'db"

definition first_or_none :: "'db executor \<Rightarrow> string \<Rightarrow> 'db \<Rightarrow> (error + row option) \<times> 'db" where
  "first_or_none execute_query sql db =
     (case execute_query db sql of
        (Inl e, db1) \<Rightarrow> (Inl e, db1)
      | (Inr rows1, db1) \<Rightarrow>
          (if rows1 \<noteq> [] then
             (case execute_query db1 sql of
                (Inl e, db2) \<Rightarrow> (Inl e, db2)
              | (Inr [], db2) \<Rightarrow> (Inl IndexError, db2)
              | (Inr (r # _), db2) \<Rightarrow> (Inr (Some r), db2))
           else (Inr None, db1)))"







section \<open>The feature-service backend: \<open>WFSConnectionPool\<close> and \<open>WFSDataSource\<close>\<close>

text \<open>
  Operations that talk to a remote service thread the list of the requests issued so far
  (oldest first) and may raise: \<open>'s \<Rightarrow> (error + 'a) \<times> 's\<close>.
\<close>

definition bind_io ::
  "('s \<Rightarrow> (error + 'a) \<times> 's) \<Rightarrow> ('a \<Rightarrow> 's \<Rightarrow> (error + 'b) \<times> 's) \<Rightarrow> 's \<Rightarrow> (error + 'b) \<times> 's" where
  "bind_io m f s = (case m s of (Inl e, s') \<Rightarrow> (Inl e, s') | (Inr v, s') \<Rightarrow> f v s')"

definition lift_err :: "error + 'a \<Rightarrow> 's \<Rightarrow> (error + 'a) \<times> 's" where
  "lift_err r s = (r, s)"

definition with_bound :: "string option \<Rightarrow> (string \<Rightarrow> 'a) \<Rightarrow> 'a \<Rightarrow> 'a" where
  "with_bound b f dflt = (case b of None \<Rightarrow> dflt | Some s \<Rightarrow> (if s = [] then dflt else f s))"

text \<open>
  What lies outside the repository's code: the remote service (\<open>requests.get\<close>, answering
  a URL with a status code and a body, possibly depending on the earlier requests), the
  XML and JSON decoders, and \<open>strftime\<close>.
  \<^item> \<open>feature_type_names\<close>: the text nodes of the \<open>FeatureType\<close> elements of a
    capabilities document;
  \<^item> \<open>json_features\<close>: the \<open>properties\<close> of the entries of \<open>features\<close> in a JSON
    document, in order;
  \<^item> \<open>elements_by_tag\<close>: the text nodes of the elements of a document with a given tag.
\<close>

record wfs_env =
  http_get :: "string list \<Rightarrow> string \<Rightarrow> nat \<times> string"
  feature_type_names :: "string \<Rightarrow> error + string list"
  json_features :: "string \<Rightarrow> error + pydict list"
  elements_by_tag :: "string \<Rightarrow> string \<Rightarrow> error + string list"
  strftime :: "datetime \<Rightarrow> string \<Rightarrow> string"

record connection_pool =
  pool_host :: string
  pool_port :: string
  pool_location :: string
  pool_workspace :: string
  pool_base_path :: string
  pool_auth :: "(string \<times> string) option"
  pool_base :: string

definition mount_url :: "string \<Rightarrow> string \<Rightarrow> string \<Rightarrow> string \<Rightarrow> string" where
  "mount_url host port location workspace = host @ '':'' @ port @ ''/'' @ location @ ''/'' @ workspace"

text \<open>
  \<open>WFSConnectionPool.__init__\<close> and \<open>WCSConnectionPool.__init__\<close> differ in the base path
  only. \<open>connection_info["user"] and connection_info["password"]\<close> reads the password
  only when the user is not empty.
\<close>

definition new_connection_pool :: "string \<Rightarrow> pydict \<Rightarrow> error + connection_pool" where
  "new_connection_pool base_path connection_info =
     bind_err (getitem connection_info ''host'') (\<lambda>host.
     bind_err (getitem connection_info ''port'') (\<lambda>port.
     bind_err (getitem connection_info ''location'') (\<lambda>location.
     bind_err (getitem connection_info ''user'') (\<lambda>user.
     bind_err (if user = [] then Inr None
               else bind_err (getitem connection_info ''password'') (\<lambda>password.
                      Inr (if password = [] then None else Some (user, password)))) (\<lambda>auth.
       Inr \<lparr>pool_host = host, pool_port = port, pool_location = location,
            pool_workspace = ''datacube'', pool_base_path = base_path, pool_auth = auth,
            pool_base = mount_url host port location ''datacube''\<rparr>)))))"

definition wfs_get :: "wfs_env \<Rightarrow> string \<Rightarrow> string list \<Rightarrow> (error + string) \<times> string list" where
  "wfs_get env uri reqs =
     (case http_get env reqs uri of
        (status, body) \<Rightarrow>
          (if status \<noteq> 200 then (Inl (RequestFail status), reqs @ [uri])
           else (Inr body, reqs @ [uri])))"

definition capabilities_url :: "connection_pool \<Rightarrow> string" where
  "capabilities_url pool = pool_base pool @ ''/'' @ pool_base_path pool @ ''&request=GetCapabilities''"

definition list_feature ::
  "wfs_env \<Rightarrow> connection_pool \<Rightarrow> string list \<Rightarrow> (error + string list) \<times> string list" where
  "list_feature env pool =
     bind_io (wfs_get env (capabilities_url pool)) (\<lambda>doc.
       lift_err (feature_type_names env doc))"

definition check_feature ::
  "wfs_env \<Rightarrow> connection_pool \<Rightarrow> string \<Rightarrow> string list \<Rightarrow> (error + unit) \<times> string list" where
  "check_feature env pool ft_name =
     bind_io (list_feature env pool) (\<lambda>features.
       lift_err (if ft_name \<in> set features then Inr () else Inl (NotFound ft_name)))"

text \<open>
  The keyword arguments of \<open>get_feature\<close>. The caller in this file passes these names
  only, so the check for invalid parameter names cannot fail; an optional argument is
  \<open>None\<close> when the key is not passed. \<open>kw_geom\<close> is the WKT text of the point.
\<close>

record feature_args =
  kw_feature_type :: string
  kw_geom :: string
  kw_geom_property :: pydict
  kw_srid :: string
  kw_propertyName :: "string option"
  kw_start_date :: "string option"
  kw_end_date :: "string option"

definition opt_text :: "string option \<Rightarrow> string" where
  "opt_text b = (case b of None \<Rightarrow> [] | Some s \<Rightarrow> s)"

definition get_feature_url :: "connection_pool \<Rightarrow> feature_args \<Rightarrow> string \<Rightarrow> string" where
  "get_feature_url pool kwargs gp_name =
     pool_base pool @ ''/'' @ pool_base_path pool @ ''&request=GetFeature&typeName=''
       @ kw_feature_type kwargs
     @ (case kw_propertyName kwargs of None \<Rightarrow> [] | Some p \<Rightarrow> ''&propertyName='' @ p)
     @ ''&outputformat=json&CRS=EPSG:'' @ kw_srid kwargs
     @ ''&CQL_FILTER=INTERSECTS('' @ gp_name @ '', '' @ kw_geom kwargs @ '')''
     @ opt_text (kw_start_date kwargs)
     @ opt_text (kw_end_date kwargs)"

definition get_feature ::
  "wfs_env \<Rightarrow> connection_pool \<Rightarrow> feature_args \<Rightarrow> string list
     \<Rightarrow> (error + pydict option) \<times> string list" where
  "get_feature env pool kwargs =
     bind_io (check_feature env pool (kw_feature_type kwargs)) (\<lambda>_.
     bind_io (lift_err (getitem (kw_geom_property kwargs) ''property_name'')) (\<lambda>gp_name.
     bind_io (wfs_get env (get_feature_url pool kwargs gp_name)) (\<lambda>doc.
     bind_io (lift_err (json_features env doc)) (\<lambda>features.
       lift_err (Inr (case features of [] \<Rightarrow> None | f # _ \<Rightarrow> Some f))))))"

definition get_class_url :: "connection_pool \<Rightarrow> string \<Rightarrow> string \<Rightarrow> string" where
  "get_class_url pool ft_name featureID =
     pool_base pool @ ''/'' @ pool_base_path pool @ ''&request=GetFeature&typeName='' @ ft_name
       @ ''&featureID='' @ featureID"

definition get_class ::
  "wfs_env \<Rightarrow> connection_pool \<Rightarrow> string \<Rightarrow> string \<Rightarrow> string \<Rightarrow> string list
     \<Rightarrow> (error + string) \<times> string list" where
  "get_class env pool featureID class_property_name ft_name =
     bind_io (wfs_get env (get_class_url pool ft_name featureID)) (\<lambda>doc.
     bind_io (lift_err (elements_by_tag env doc (''datacube:'' @ class_property_name))) (\<lambda>itemlist.
       lift_err (case itemlist of [] \<Rightarrow> Inl IndexError | v # _ \<Rightarrow> Inr v)))"

text \<open>
  What \<open>WFSDataSource.get_trajectory\<close> returns: \<open>None\<close> (a bare \<open>return\<close>) or the list
  \<open>result\<close>.
\<close>

datatype py_result = PyNone | PyList "string list"

text \<open>\<open>if(response):\<close> holds for a dictionary that is there and not empty.\<close>

definition has_response :: "pydict option \<Rightarrow> bool" where
  "has_response r = (case r of None \<Rightarrow> False | Some d \<Rightarrow> d \<noteq> [])"

definition opt_dict :: "pydict option \<Rightarrow> pydict" where
  "opt_dict r = (case r of None \<Rightarrow> [] | Some d \<Rightarrow> d)"

definition date_filter ::
  "wfs_env \<Rightarrow> pydict \<Rightarrow> string \<Rightarrow> string \<Rightarrow> string option \<Rightarrow> error + string option" where
  "date_filter env temporal tp cmp bound =
     with_bound bound
       (\<lambda>s. bind_err (get_date_from_str s False) (\<lambda>d.
            bind_err (getitem temporal ''string_format'') (\<lambda>fmt.
              Inr (Some (''AND '' @ tp @ '' '' @ cmp @ '' '' @ strftime env d fmt)))))
       (Inr None)"

text \<open>
  The local pre-filter of the third branch: \<open>True\<close> when a bound excludes the observation
  (the code returns at once), an error when a supplied bound does not parse.
\<close>

definition excluded_by_bounds :: "datetime \<Rightarrow> string option \<Rightarrow> string option \<Rightarrow> error + bool" where
  "excluded_by_bounds obs_temporal start_date end_date =
     bind_err (with_bound start_date
                 (\<lambda>s. bind_err (get_date_from_str s False) (\<lambda>d. Inr (date_less obs_temporal d)))
                 (Inr False)) (\<lambda>before_start.
       if before_start then Inr True
       else with_bound end_date
              (\<lambda>s. bind_err (get_date_from_str s False) (\<lambda>d. Inr (date_less d obs_temporal)))
              (Inr False))"

text \<open>
  The four branches of \<open>WFSDataSource.get_trajectory\<close>, in the order of its
  \<open>if\<close>/\<open>elif\<close> chain, each a definition of its own; \<open>args\<close> is the dictionary of
  keyword arguments built before the chain.
\<close>

definition literal_string_branch ::
  "wfs_env \<Rightarrow> connection_pool \<Rightarrow> feature_args \<Rightarrow> pydict \<Rightarrow> pydict \<Rightarrow> string list
     \<Rightarrow> (error + py_result) \<times> string list" where
  "literal_string_branch env pool args temporal obs =
     bind_io (get_feature env pool args) (\<lambda>response.
     bind_io (lift_err (getitem obs ''temporal_property'')) (\<lambda>tp.
     bind_io (lift_err (get_date_from_str tp False)) (\<lambda>obs_tm.
       if has_response response then
         bind_io (lift_err (getitem obs ''class_property_name'')) (\<lambda>label.
         bind_io (lift_err (getitem temporal ''string_format'')) (\<lambda>fmt.
           lift_err (Inr (PyList [label, strftime env obs_tm fmt]))))
       else lift_err (Inr (PyList [])))))"

definition literal_typed_branch ::
  "wfs_env \<Rightarrow> connection_pool \<Rightarrow> feature_args \<Rightarrow> pydict \<Rightarrow> pydict
     \<Rightarrow> string option \<Rightarrow> string option \<Rightarrow> string list
     \<Rightarrow> (error + py_result) \<times> string list" where
  "literal_typed_branch env pool args temporal obs start_date end_date =
     bind_io (lift_err (getitem obs ''temporal_property'')) (\<lambda>tp.
     bind_io (lift_err (date_filter env temporal tp ''>='' start_date)) (\<lambda>start_filter.
     bind_io (lift_err (date_filter env temporal tp ''<='' end_date)) (\<lambda>end_filter.
     bind_io (get_feature env pool
                (args\<lparr>kw_propertyName := Some tp, kw_start_date := start_filter,
                       kw_end_date := end_filter\<rparr>)) (\<lambda>response.
       if has_response response then
         bind_io (lift_err (getitem obs ''class_property_name'')) (\<lambda>label.
         bind_io (lift_err (getitem (opt_dict response) tp)) (\<lambda>date_value.
           lift_err (Inr (PyList [label, date_value]))))
       else lift_err (Inr (PyList []))))))"

definition attribute_string_branch ::
  "wfs_env \<Rightarrow> connection_pool \<Rightarrow> feature_args \<Rightarrow> pydict \<Rightarrow> classification_class
     \<Rightarrow> string option \<Rightarrow> string option \<Rightarrow> string list
     \<Rightarrow> (error + py_result) \<times> string list" where
  "attribute_string_branch env pool args obs classification_class start_date end_date =
     bind_io (lift_err (getitem obs ''temporal_property'')) (\<lambda>tp.
     bind_io (lift_err (get_date_from_str tp False)) (\<lambda>obs_temporal.
     bind_io (lift_err (excluded_by_bounds obs_temporal start_date end_date)) (\<lambda>excluded.
       if excluded then lift_err (Inr PyNone)
       else
         bind_io (lift_err (getitem obs ''class_property'')) (\<lambda>cp.
         bind_io (get_feature env pool
                    (args\<lparr>kw_propertyName := Some (cp @ '','' @ tp)\<rparr>)) (\<lambda>response.
           if has_response response then
             bind_io (lift_err (getitem (opt_dict response) cp)) (\<lambda>featureID.
             bind_io (get_class env pool featureID
                        (get_class_property_name classification_class)
                        (get_name classification_class)) (\<lambda>classes_prop.
               lift_err (Inr (PyList [classes_prop, tp]))))
           else lift_err (Inr (PyList [])))))))"

definition attribute_typed_branch ::
  "wfs_env \<Rightarrow> connection_pool \<Rightarrow> feature_args \<Rightarrow> pydict \<Rightarrow> pydict \<Rightarrow> classification_class
     \<Rightarrow> string option \<Rightarrow> string option \<Rightarrow> string list
     \<Rightarrow> (error + py_result) \<times> string list" where
  "attribute_typed_branch env pool args temporal obs classification_class start_date end_date =
     bind_io (lift_err (getitem obs ''class_property'')) (\<lambda>cp.
     bind_io (lift_err (getitem obs ''temporal_property'')) (\<lambda>tp.
     bind_io (lift_err (date_filter env temporal tp ''>='' start_date)) (\<lambda>start_filter.
     bind_io (lift_err (date_filter env temporal tp ''<='' end_date)) (\<lambda>end_filter.
     bind_io (get_feature env pool
                (args\<lparr>kw_propertyName := Some (cp @ '','' @ tp),
                       kw_start_date := start_filter, kw_end_date := end_filter\<rparr>)) (\<lambda>response.
       if has_response response then
         bind_io (lift_err (getitem (opt_dict response) cp)) (\<lambda>featureID.
         bind_io (get_class env pool featureID
                    (get_class_property_name classification_class)
                    (get_name classification_class)) (\<lambda>classes_prop.
         bind_io (lift_err (getitem (opt_dict response) tp)) (\<lambda>date_value.
           lift_err (Inr (PyList [classes_prop, date_value])))))
       else lift_err (Inr (PyList [])))))))"

definition wfs_get_trajectory ::
  "wfs_env \<Rightarrow> connection_pool \<Rightarrow> string \<Rightarrow> pydict \<Rightarrow> string \<Rightarrow> pydict \<Rightarrow> pydict
     \<Rightarrow> classification_class \<Rightarrow> string option \<Rightarrow> string option \<Rightarrow> string list
     \<Rightarrow> (error + py_result) \<times> string list" where
  "wfs_get_trajectory env pool feature_type temporal geom_wkt obs geom_property
       classification_class start_date end_date =
     bind_io (lift_err (getitem geom_property ''srid'')) (\<lambda>srid.
     bind_io (lift_err (getitem temporal ''type'')) (\<lambda>temporal_type.
       let class_type = get_type classification_class;
           args = \<lparr>kw_feature_type = feature_type, kw_geom = geom_wkt,
                   kw_geom_property = geom_property, kw_srid = srid,
                   kw_propertyName = None, kw_start_date = None, kw_end_date = None\<rparr>
       in
       if class_type = ''Literal'' \<and> temporal_type = ''STRING'' then
         literal_string_branch env pool args temporal obs
       else if class_type = ''Literal'' \<and> temporal_type \<noteq> ''STRING'' then
         literal_typed_branch env pool args temporal obs start_date end_date
       else if class_type \<noteq> ''Literal'' \<and> temporal_type = ''STRING'' then
         attribute_string_branch env pool args obs classification_class start_date end_date
       else
         attribute_typed_branch env pool args temporal obs classification_class
           start_date end_date))"

text \<open>
  A mock service for concrete runs: every request is answered with status 200, the
  capabilities list the feature type \<open>prodes\<close>, the feature query matches the given
  features, the class lookup finds \<open>Forest\<close>, and \<open>strftime\<close> prints the format itself.
\<close>

definition mock_env :: "pydict list \<Rightarrow> wfs_env" where
  "mock_env features =
     \<lparr>http_get = (\<lambda>_ _. (200, [])),
      feature_type_names = (\<lambda>_. Inr [''prodes'']),
      json_features = (\<lambda>_. Inr features),
      elements_by_tag = (\<lambda>_ _. Inr [''Forest'']),
      strftime = (\<lambda>_ fmt. fmt)\<rparr>"

definition mock_pool :: connection_pool where
  "mock_pool =
     \<lparr>pool_host = ''h'', pool_port = ''80'', pool_location = ''geoserver'',
      pool_workspace = ''datacube'', pool_base_path = ''wfs?service=WFS&version=1.0.0'',
      pool_auth = None, pool_base = ''h:80/geoserver/datacube''\<rparr>"

definition mock_class :: "string \<Rightarrow> classification_class" where
  "mock_class kind =
     \<lparr>get_name = ''classes'', get_id = ''id'', get_class_property_name = ''name'',
      get_type = kind\<rparr>"

definition mock_obs :: pydict where
  "mock_obs = [(''temporal_property'', ''2017''), (''class_property'', ''cid''),
               (''class_property_name'', ''Forest'')]"

definition mock_geom_property :: pydict where
  "mock_geom_property = [(''property_name'', ''geom''), (''srid'', ''4326'')]"

definition mock_temporal :: "string \<Rightarrow> pydict" where
  "mock_temporal kind = [(''type'', kind), (''string_format'', ''%Y'')]"


section \<open>The raster-service backend: \<open>WCS\<close> and \<open>WCSDataSource\<close> (src/wlts/datasources/wcs.py)\<close>

text \<open>
  Coordinates are Python floats; they are modelled as real numbers, so rounding is not
  part of the model. \<open>int(r)\<close> on a float truncates towards zero.
\<close>

definition py_int :: "real \<Rightarrow> int" where
  "py_int r = (if 0 \<le> r then \<lfloor>r\<rfloor> else \<lceil>r\<rceil>)"

definition py_div :: "real \<Rightarrow> real \<Rightarrow> error + real" where
  "py_div a b = (if b = 0 then Inl ZeroDivisionError else Inr (a / b))"

text \<open>
  A decoded raster dataset, as far as the code reads it:
  \<^item> \<open>project\<close>: the coordinate transformation from the geographic coordinate system of
    the dataset's own projection to that projection, applied to \<open>(long, lat)\<close>;
  \<^item> \<open>gt0\<close> to \<open>gt5\<close>: the six coefficients of \<open>GetGeoTransform()\<close>;
  \<^item> \<open>read_band1\<close>: \<open>GetRasterBand(1).ReadAsArray(x, y, 1, 1)\<close> as an integer, or
    \<open>None\<close> when the read fails.
\<close>

record dataset =
  project :: "real \<Rightarrow> real \<Rightarrow> real \<times> real"
  gt0 :: real
  gt1 :: real
  gt2 :: real
  gt3 :: real
  gt4 :: real
  gt5 :: real
  read_band1 :: "int \<Rightarrow> int \<Rightarrow> int option"

text \<open>
  \<^verbatim>\<open>
  def transform_latlong_to_rowcol(self, data_set, lat, long):
      ...
      x, y, _ = ct.TransformPoint(long, lat)
      transform = data_set.GetGeoTransform()
      x = int((x - transform[0]) / transform[1])
      y = int((transform[3] - y) / -transform[5])
      return x, y
  \<close>
\<close>

definition transform_latlong_to_rowcol :: "dataset \<Rightarrow> real \<Rightarrow> real \<Rightarrow> error + int \<times> int" where
  "transform_latlong_to_rowcol data_set lat long =
     (case project data_set long lat of
        (x, y) \<Rightarrow>
          bind_err (py_div (x - gt0 data_set) (gt1 data_set)) (\<lambda>qx.
          bind_err (py_div (gt3 data_set - y) (- gt5 data_set)) (\<lambda>qy.
            Inr (py_int qx, py_int qy))))"



text \<open>
  The client object and what lies outside the code: \<open>urlopen\<close> (the raster fetch of
  \<open>_get_image\<close>: \<open>None\<close> for a \<open>URLError\<close> or a gzip response, otherwise the bytes),
  \<open>gdal_open\<close> (the decoder, \<open>None\<close> when the bytes are no raster) and the text that
  \<open>format\<close> prints for a float.
\<close>

record wcs =
  wcs_host :: string
  wcs_base_path :: string
  wcs_auth :: "(string \<times> string) option"

record wcs_env =
  urlopen :: "string list \<Rightarrow> string \<Rightarrow> string option"
  gdal_open :: "string \<Rightarrow> dataset option"
  fmt_float :: "real \<Rightarrow> string"

definition get_image_raw :: "wcs_env \<Rightarrow> string \<Rightarrow> string list \<Rightarrow> string option \<times> string list" where
  "get_image_raw env uri reqs = (urlopen env reqs uri, reqs @ [uri])"

text \<open>
  \<open>open_image\<close>: one fetch; no data or an undecodable raster give \<open>None\<close>; a failed
  pixel read is \<open>None.astype\<close>, an \<open>AttributeError\<close>.
\<close>

definition open_image ::
  "wcs_env \<Rightarrow> string \<Rightarrow> real \<Rightarrow> real \<Rightarrow> string list \<Rightarrow> (error + int option) \<times> string list" where
  "open_image env url long lat reqs =
     (case get_image_raw env url reqs of
        (None, reqs') \<Rightarrow> (Inr None, reqs')
      | (Some image_data, reqs') \<Rightarrow>
          (case gdal_open env image_data of
             None \<Rightarrow> (Inr None, reqs')
           | Some gdal_dataset \<Rightarrow>
               (case transform_latlong_to_rowcol gdal_dataset lat long of
                  Inl e \<Rightarrow> (Inl e, reqs')
                | Inr (x, y) \<Rightarrow>
                    (case read_band1 gdal_dataset x y of
                       None \<Rightarrow> (Inl AttributeError, reqs')
                     | Some intval \<Rightarrow> (Inr (Some intval), reqs')))))"

text \<open>
  The arguments of \<open>get_image\<close>, \<open>self\<close> included: the key of its \<open>lru_cache\<close>. The
  SRID, the grid shape and the time are kept as the text \<open>format\<close> prints.
\<close>

record image_key =
  k_self :: wcs
  k_image :: string
  k_srid :: string
  k_min_x :: real
  k_max_x :: real
  k_min_y :: real
  k_max_y :: real
  k_column :: string
  k_row :: string
  k_time :: string
  k_x :: real
  k_y :: real

definition get_image_url :: "wcs_env \<Rightarrow> image_key \<Rightarrow> string" where
  "get_image_url env k =
     wcs_host (k_self k) @ ''/'' @ wcs_base_path (k_self k) @ ''&request=GetCoverage&COVERAGE=''
       @ k_image k @ ''&''
     @ ''CRS=EPSG:4326&RESPONSE_CRS=EPSG:'' @ k_srid k @ ''&''
     @ ''BBOX='' @ fmt_float env (k_min_x k) @ '','' @ fmt_float env (k_max_x k) @ '',''
       @ fmt_float env (k_min_y k) @ '','' @ fmt_float env (k_max_y k)
     @ ''&FORMAT=GeoTIFF&WIDTH='' @ k_column k @ ''&HEIGHT='' @ k_row k @ ''&time='' @ k_time k"

definition get_image_body ::
  "wcs_env \<Rightarrow> image_key \<Rightarrow> string list \<Rightarrow> (error + int option) \<times> string list" where
  "get_image_body env k = open_image env (get_image_url env k) (k_x k) (k_y k)"

text \<open>
  \<open>@lru_cache()\<close>: the default \<open>maxsize\<close> is 128. The cache is the list of the entries,
  the most recently used first. A hit returns the stored value and moves the entry to the
  front. A miss runs the function; a raised exception stores nothing, a returned value
  (\<open>None\<close> too) is stored at the front, the least recently used entry being dropped when
  the cache is full.
\<close>

definition maxsize :: nat where
  "maxsize = 128"

record wcs_state =
  cache :: "(image_key \<times> int option) list"
  fetched :: "string list"

definition get_image :: "wcs_env \<Rightarrow> image_key \<Rightarrow> wcs_state \<Rightarrow> (error + int option) \<times> wcs_state" where
  "get_image env k st =
     (case map_of (cache st) k of
        Some v \<Rightarrow>
          (Inr v, st\<lparr>cache := (k, v) # filter (\<lambda>p. fst p \<noteq> k) (cache st)\<rparr>)
      | None \<Rightarrow>
          (case get_image_body env k (fetched st) of
             (Inl e, reqs') \<Rightarrow> (Inl e, st\<lparr>fetched := reqs'\<rparr>)
           | (Inr v, reqs') \<Rightarrow>
               (Inr v,
                \<lparr>cache = (k, v) # (if length (cache st) \<ge> maxsize then butlast (cache st)
                                     else cache st),
                 fetched = reqs'\<rparr>)))"

text \<open>A run of calls of \<open>get_image\<close>, whatever they return.\<close>

fun get_images :: "wcs_env \<Rightarrow> image_key list \<Rightarrow> wcs_state \<Rightarrow> wcs_state" where
  "get_images env [] st = st"
| "get_images env (k # ks) st = get_images env ks (snd (get_image env k st))"

text \<open>
  The keyword arguments of \<open>WCSDataSource.get_trajectory\<close>: a key that is not passed is
  \<open>None\<close> and reading it raises \<open>KeyError\<close>; \<open>tk_other\<close> lists the names passed beyond
  the nine the operation accepts (\<open>temporal\<close> is accepted and never read, so it has no
  field). A date bound that is passed is \<open>None\<close> or a string.
\<close>

record trajectory_kwargs =
  tk_image :: "string option"
  tk_x :: "real option"
  tk_y :: "real option"
  tk_srid :: "string option"
  tk_grid :: "pydict option"
  tk_start_date :: "string option option"
  tk_end_date :: "string option option"
  tk_time :: "string option"
  tk_other :: "string list"

definition required :: "string \<Rightarrow> 'a option \<Rightarrow> error + 'a" where
  "required name v = (case v of None \<Rightarrow> Inl (KeyError name) | Some x \<Rightarrow> Inr x)"

record wcs_datasource =
  ds_wcs :: wcs
  ds_workspace :: string

text \<open>\<open>Point(x, y).buffer(0.002).bounds\<close>: \<open>(min_x, min_y, max_x, max_y)\<close>.\<close>

definition buffer_bounds :: "real \<Rightarrow> real \<Rightarrow> real \<times> real \<times> real \<times> real" where
  "buffer_bounds x y = (x - 2 / 1000, y - 2 / 1000, x + 2 / 1000, y + 2 / 1000)"

text \<open>
  The temporal filter at the head of \<open>get_trajectory\<close>: \<open>True\<close> when a bound excludes the
  observation time. \<open>parse_date\<close> is \<open>get_date_from_str\<close> of \<open>wlts.utils\<close>, called with
  the text alone.
\<close>

definition outside_bounds ::
  "(string \<Rightarrow> error + datetime) \<Rightarrow> datetime \<Rightarrow> trajectory_kwargs \<Rightarrow> error + bool" where
  "outside_bounds parse_date ts kwargs =
     bind_err (required ''start_date'' (tk_start_date kwargs)) (\<lambda>sd.
     bind_err (with_bound sd
                 (\<lambda>s. bind_err (parse_date s) (\<lambda>start_date. Inr (date_less ts start_date)))
                 (Inr False)) (\<lambda>before_start.
       if before_start then Inr True
       else
         bind_err (required ''end_date'' (tk_end_date kwargs)) (\<lambda>ed.
           with_bound ed
             (\<lambda>s. bind_err (parse_date s) (\<lambda>end_date. Inr (date_less end_date ts)))
             (Inr False))))"

text \<open>
  The call \<open>get_image(image_name, srid, min_x, min_y, max_x, max_y, ...)\<close> passes the
  bounds by position to the parameters \<open>min_x, max_x, min_y, max_y\<close>.
\<close>

definition image_call ::
  "wcs_datasource \<Rightarrow> string \<Rightarrow> string \<Rightarrow> real \<Rightarrow> real \<Rightarrow> string \<Rightarrow> string \<Rightarrow> string
     \<Rightarrow> image_key" where
  "image_call self image_name srid x y col row time =
     (case buffer_bounds x y of
        (min_x, min_y, max_x, max_y) \<Rightarrow>
          \<lparr>k_self = ds_wcs self, k_image = ds_workspace self @ '':'' @ image_name,
           k_srid = srid, k_min_x = min_x, k_max_x = min_y, k_min_y = max_x,
           k_max_y = max_y, k_column = col, k_row = row, k_time = time,
           k_x = x, k_y = y\<rparr>)"

definition wcs_get_trajectory ::
  "wcs_env \<Rightarrow> (string \<Rightarrow> error + datetime) \<Rightarrow> wcs_datasource \<Rightarrow> trajectory_kwargs
     \<Rightarrow> wcs_state \<Rightarrow> (error + int option) \<times> wcs_state" where
  "wcs_get_trajectory env parse_date self kwargs =
     (if tk_other kwargs \<noteq> [] then lift_err (Inl AttributeError)
      else
        bind_io (lift_err (required ''time'' (tk_time kwargs))) (\<lambda>time.
        bind_io (lift_err (parse_date time)) (\<lambda>ts.
        bind_io (lift_err (outside_bounds parse_date ts kwargs)) (\<lambda>outside.
          if outside then lift_err (Inr None)
          else
            bind_io (lift_err (required ''image'' (tk_image kwargs))) (\<lambda>image_name.
            bind_io (lift_err (required ''x'' (tk_x kwargs))) (\<lambda>x.
            bind_io (lift_err (required ''y'' (tk_y kwargs))) (\<lambda>y.
            bind_io (lift_err (required ''srid'' (tk_srid kwargs))) (\<lambda>srid.
            bind_io (lift_err (required ''grid'' (tk_grid kwargs))) (\<lambda>grid.
            bind_io (lift_err (getitem grid ''column'')) (\<lambda>col.
            bind_io (lift_err (getitem grid ''row'')) (\<lambda>row.
              get_image env (image_call self image_name srid x y col row time))))))))))))"

text \<open>
  A mock raster service for concrete runs: every fetch succeeds, every raster decodes to
  a dataset in geographic coordinates (the projection is the identity) with origin
  \<open>(0, 0)\<close> and pixels of size 1, whose pixels all hold 7.
\<close>

definition mock_dataset :: dataset where
  "mock_dataset =
     \<lparr>project = (\<lambda>long lat. (long, lat)), gt0 = 0, gt1 = 1, gt2 = 0, gt3 = 0, gt4 = 0,
      gt5 = - 1, read_band1 = (\<lambda>_ _. Some 7)\<rparr>"

definition mock_wcs_env :: wcs_env where
  "mock_wcs_env =
     \<lparr>urlopen = (\<lambda>_ _. Some ''tif''), gdal_open = (\<lambda>_. Some mock_dataset),
      fmt_float = (\<lambda>_. ''0'')\<rparr>"

definition mock_wcs :: wcs where
  "mock_wcs = \<lparr>wcs_host = ''h'', wcs_base_path = ''wcs?service=WCS&version=1.0.0'',
                wcs_auth = None\<rparr>"

definition mock_key :: "string \<Rightarrow> image_key" where
  "mock_key time =
     \<lparr>k_self = mock_wcs, k_image = ''datacube:lc'', k_srid = ''4326'', k_min_x = 0,
      k_max_x = 0, k_min_y = 0, k_max_y = 0, k_column = ''1'', k_row = ''1'',
      k_time = time, k_x = 0, k_y = 0\<rparr>"

text \<open>128 keys that differ in the time: the texts of one to 128 letters \<open>a\<close>.\<close>

definition other_keys :: "image_key list" where
  "other_keys = map (\<lambda>n. mock_key (replicate n CHR ''a'')) [1..<129]"

definition empty_state :: wcs_state where
  "empty_state = \<lparr>cache = [], fetched = []\<rparr>"

definition mock_kwargs :: "string option \<Rightarrow> string option \<Rightarrow> trajectory_kwargs" where
  "mock_kwargs start_date end_date =
     \<lparr>tk_image = Some ''lc'', tk_x = Some 0, tk_y = Some 0, tk_srid = Some ''4326'',
      tk_grid = Some [(''column'', ''1''), (''row'', ''1'')],
      tk_start_date = Some start_date, tk_end_date = Some end_date,
      tk_time = Some ''2017'', tk_other = []\<rparr>"

definition mock_datasource :: wcs_datasource where
  "mock_datasource = \<lparr>ds_wcs = mock_wcs, ds_workspace = ''datacube''\<rparr>"

text \<open>The position of a key in the cache: the number of entries used more recently.\<close>

definition rank :: "image_key \<Rightarrow> (image_key \<times> int option) list \<Rightarrow> nat" where
  "rank k c = length (takeWhile (\<lambda>p. fst p \<noteq> k) c)"

section \<open>Backend construction: \<open>DataSourceFactory\<close> and \<open>DataSourceManager\<close>\<close>

text \<open>
  The three backends of src/wlts/datasource.py, as constructed.
  \<^item> \<open>PostGisDataSource\<close> opens its connection in a \<open>try\<close> that catches every exception
    and leaves \<open>None\<close>, so its construction never raises; \<open>connect\<close> stands for
    \<open>psycopg2.connect\<close> on the connection info.
  \<^item> \<open>WCSDataSource\<close> and \<open>WFSDataSource\<close> build their connection pool from the
    connection info, which raises \<open>KeyError\<close> for a missing entry.
\<close>

datatype 'c datasource =
    PostGisDataSource string pydict "'c option"
  | WCSDataSource string pydict connection_pool
  | WFSDataSource string pydict connection_pool

definition factorys :: "(string \<times> string) list" where
  "factorys = [(''POSTGIS'', ''PostGisDataSource''), (''WCS'', ''WCSDataSource''),
               (''WFS'', ''WFSDataSource'')]"

text \<open>\<open>eval(name)(id, connInfo)\<close>: the class of that name, applied.\<close>

definition eval_class ::
  "(pydict \<Rightarrow> 'c option) \<Rightarrow> string \<Rightarrow> string \<Rightarrow> pydict \<Rightarrow> error + 'c datasource" where
  "eval_class connect name ident connInfo =
     (if name = ''PostGisDataSource'' then
        Inr (PostGisDataSource ident connInfo (connect connInfo))
      else if name = ''WCSDataSource'' then
        bind_err (new_connection_pool ''wcs?service=WCS&version=1.0.0'' connInfo) (\<lambda>pool.
          Inr (WCSDataSource ident connInfo pool))
      else if name = ''WFSDataSource'' then
        bind_err (new_connection_pool ''wfs?service=WFS&version=1.0.0'' connInfo) (\<lambda>pool.
          Inr (WFSDataSource ident connInfo pool))
      else Inl (NameError name))"

text \<open>
  \<^verbatim>\<open>
  def make(dsType, id, connInfo):
      factorys = {"POSTGIS": "PostGisDataSource", "WCS": "WCSDataSource",
                  "WFS": "WFSDataSource"}
      datasource = eval(factorys[dsType])(id, connInfo)
      return datasource
  \<close>
\<close>

definition make ::
  "(pydict \<Rightarrow> 'c option) \<Rightarrow> string \<Rightarrow> string \<Rightarrow> pydict \<Rightarrow> error + 'c datasource" where
  "make connect dsType ident connInfo =
     bind_err (getitem factorys dsType) (\<lambda>name. eval_class connect name ident connInfo)"

text \<open>
  The registry \<open>_datasources\<close>: the lists of the three source groups.
  \<^verbatim>\<open>
  def insert_datasource(self, dsType, connInfo):
      self._datasources[dsType].append(
          DataSourceFactory.make(connInfo["type"], connInfo["id"], connInfo))
  \<close>
  The list of the group is looked up first, then the arguments are evaluated.
\<close>

type_synonym 'c registry = "(string \<times> 'c datasource list) list"

definition initial_registry :: "'c registry" where
  "initial_registry = [(''webservice_source'', []), (''dbms_source'', []), (''file_source'', [])]"

definition insert_datasource ::
  "(pydict \<Rightarrow> 'c option) \<Rightarrow> 'c registry \<Rightarrow> string \<Rightarrow> pydict \<Rightarrow> error + 'c registry" where
  "insert_datasource connect registry dsType connInfo =
     bind_err (getitem registry dsType) (\<lambda>group.
     bind_err (getitem connInfo ''type'') (\<lambda>tag.
     bind_err (getitem connInfo ''id'') (\<lambda>ident.
     bind_err (make connect tag ident connInfo) (\<lambda>ds.
       Inr (map (\<lambda>(g, l). if g = dsType then (g, l @ [ds]) else (g, l)) registry)))))"

text \<open>
  \<open>load_all\<close>: the configuration's \<open>datasources\<close> (\<open>None\<close> when the key is absent, a
  \<open>ValueError\<close>) is a list of groups, each with the list of its connection infos; the
  two loops stop at the first exception.
\<close>

fun insert_group ::
  "(pydict \<Rightarrow> 'c option) \<Rightarrow> 'c registry \<Rightarrow> string \<Rightarrow> pydict list \<Rightarrow> error + 'c registry" where
  "insert_group connect registry dstype [] = Inr registry"
| "insert_group connect registry dstype (ds_info # rest) =
     (case insert_datasource connect registry dstype ds_info of
        Inl e \<Rightarrow> Inl e
      | Inr registry' \<Rightarrow> insert_group connect registry' dstype rest)"

fun insert_groups ::
  "(pydict \<Rightarrow> 'c option) \<Rightarrow> 'c registry \<Rightarrow> (string \<times> pydict list) list \<Rightarrow> error + 'c registry" where
  "insert_groups connect registry [] = Inr registry"
| "insert_groups connect registry ((dstype, datasources_info) # rest) =
     (case insert_group connect registry dstype datasources_info of
        Inl e \<Rightarrow> Inl e
      | Inr registry' \<Rightarrow> insert_groups connect registry' rest)"

definition load_all ::
  "(pydict \<Rightarrow> 'c option) \<Rightarrow> (string \<times> pydict list) list option \<Rightarrow> error + 'c registry" where
  "load_all connect config =
     (case config of
        None \<Rightarrow> Inl ValueError
      | Some datasources \<Rightarrow> insert_groups connect initial_registry datasources)"

definition recognized :: "string set" where
  "recognized = {''POSTGIS'', ''WCS'', ''WFS''}"

section \<open>Properties of date parsing\<close>

lemmas date_defs =
  get_date_from_str_def parse_formats_def replace_slash_def strptime_def
  matches_Ymd_def matches_Ym_def matches_Yonly_def match_m_def match_d_def
  is_digit_def is_nonzero_digit_def digit_val_def mk_datetime_def days_in_month_def
  is_leap_def

text \<open>
  C1 (as stated): under the reference-bound flag, \<open>2020\<close> becomes 31 December 2020,
  \<open>2020-05\<close> becomes 31 May 2020 and \<open>2020-05-17\<close> stays 17 May 2020. The code does not
  do the last two: it sets day 31 and month 12 on whatever was parsed.
\<close>

theorem C1_period_end_counterexample:
  "get_date_from_str ''2020-05'' True \<noteq> Inr \<lparr>year = 2020, month = 5, day = 31\<rparr>
   \<and> get_date_from_str ''2020-05-17'' True \<noteq> Inr \<lparr>year = 2020, month = 5, day = 17\<rparr>"
  by (simp add: date_defs)

text \<open>
  C1 (amended): under the reference-bound flag every string that parses, whatever its
  precision, is mapped to 31 December of its year, and a string that does not parse raises
  the same error as without the flag. So \<open>2020\<close>, \<open>2020-05\<close> and \<open>2020-05-17\<close> all
  become 31 December 2020; without the flag \<open>2020-05-17\<close> is 17 May 2020 exactly.
\<close>

theorem C1_reference_bound_is_december_31:
  "get_date_from_str s True =
     (case get_date_from_str s False of
        Inl e \<Rightarrow> Inl e
      | Inr d \<Rightarrow> Inr \<lparr>year = year d, month = 12, day = 31\<rparr>)
   \<and> get_date_from_str ''2020'' True = Inr \<lparr>year = 2020, month = 12, day = 31\<rparr>
   \<and> get_date_from_str ''2020-05'' True = Inr \<lparr>year = 2020, month = 12, day = 31\<rparr>
   \<and> get_date_from_str ''2020-05-17'' True = Inr \<lparr>year = 2020, month = 12, day = 31\<rparr>
   \<and> get_date_from_str ''2020-05-17'' False = Inr \<lparr>year = 2020, month = 5, day = 17\<rparr>"
proof -
  have general: "get_date_from_str s True =
     (case get_date_from_str s False of
        Inl e \<Rightarrow> Inl e
      | Inr d \<Rightarrow> Inr \<lparr>year = year d, month = 12, day = 31\<rparr>)"
    by (simp add: get_date_from_str_def split: sum.splits)
  have y: "get_date_from_str ''2020'' True = Inr \<lparr>year = 2020, month = 12, day = 31\<rparr>"
    by (simp add: date_defs)
  have ym: "get_date_from_str ''2020-05'' True = Inr \<lparr>year = 2020, month = 12, day = 31\<rparr>"
    by (simp add: date_defs)
  have ymd: "get_date_from_str ''2020-05-17'' True = Inr \<lparr>year = 2020, month = 12, day = 31\<rparr>"
    by (simp add: date_defs)
  have plain: "get_date_from_str ''2020-05-17'' False = Inr \<lparr>year = 2020, month = 5, day = 17\<rparr>"
    by (simp add: date_defs)
  from general y ym ymd plain show ?thesis by blast
qed

theorem C1_reference_bound_witness:
  "get_date_from_str ''2019/07'' True = Inr \<lparr>year = 2019, month = 12, day = 31\<rparr>"
proof -
  have plain: "get_date_from_str ''2019/07'' False = Inr \<lparr>year = 2019, month = 7, day = 1\<rparr>"
    by (simp add: date_defs)
  from C1_reference_bound_is_december_31 [of "''2019/07''"] plain show ?thesis by simp
qed

section \<open>Properties of the database backend\<close>







text \<open>
  Because of the second execution, a result set that is empty the second time makes the
  indexing raise instead.
\<close>

lemma first_or_none_second_empty:
  "execute_query db sql = (Inr (r0 # rs0), db1) \<Longrightarrow> execute_query db1 sql = (Inr [], db2)
   \<Longrightarrow> first_or_none execute_query sql db = (Inl IndexError, db2)"
  by (simp add: first_or_none_def)

section \<open>Properties of the feature-service backend\<close>

lemmas mock_defs =
  mock_env_def mock_pool_def mock_class_def mock_obs_def mock_geom_property_def
  mock_temporal_def

lemma bind_io_Inr:
  "bind_io m f s = (Inr v, s') \<Longrightarrow> \<exists>u s1. m s = (Inr u, s1) \<and> f u s1 = (Inr v, s')"
  by (auto simp: bind_io_def split: prod.splits sum.splits)

lemma lift_err_eq: "(lift_err r s = (x, s')) = (x = r \<and> s' = s)"
  by (auto simp: lift_err_def)



lemma get_feature_no_features:
  assumes "\<forall>doc. json_features env doc = Inr []"
    and "get_feature env pool kw reqs = (Inr x, reqs')"
  shows "x = None"
  using assms unfolding get_feature_def
  by (auto dest!: bind_io_Inr simp: lift_err_eq)






lemma excluded_before_start:
  "ss \<noteq> [] \<Longrightarrow> get_date_from_str ss False = Inr s \<Longrightarrow> date_less t s
   \<Longrightarrow> excluded_by_bounds t (Some ss) ed = Inr True"
  by (simp add: excluded_by_bounds_def with_bound_def bind_err_def)

lemma excluded_after_end:
  "\<not> truthy sd \<or> (\<exists>ss s. sd = Some ss \<and> get_date_from_str ss False = Inr s \<and> \<not> date_less t s)
   \<Longrightarrow> es \<noteq> [] \<Longrightarrow> get_date_from_str es False = Inr e \<Longrightarrow> date_less e t
   \<Longrightarrow> excluded_by_bounds t sd (Some es) = Inr True"
  by (auto simp: excluded_by_bounds_def with_bound_def bind_err_def truthy_def
      split: option.splits)

lemma attribute_string_excluded:
  assumes "get_type c \<noteq> ''Literal''"
    and "getitem temporal ''type'' = Inr ''STRING''"
    and "getitem gp ''srid'' = Inr srid"
    and "getitem obs ''temporal_property'' = Inr tp"
    and "get_date_from_str tp False = Inr t"
    and "excluded_by_bounds t sd ed = Inr True"
  shows "wfs_get_trajectory env pool ft temporal wkt obs gp c sd ed reqs = (Inr PyNone, reqs)"
  using assms
  by (simp add: wfs_get_trajectory_def attribute_string_branch_def bind_io_def lift_err_def
      Let_def)

lemma no_features_branches:
  assumes nf: "\<forall>doc. json_features env doc = Inr []"
  shows "literal_string_branch env pool args temporal obs reqs = (Inr res, reqs')
           \<Longrightarrow> res = PyList []"
    and "literal_typed_branch env pool args temporal obs sd ed reqs = (Inr res, reqs')
           \<Longrightarrow> res = PyList []"
    and "attribute_string_branch env pool args obs c sd ed reqs = (Inr res, reqs')
           \<Longrightarrow> reqs' \<noteq> reqs \<Longrightarrow> res = PyList []"
    and "attribute_typed_branch env pool args temporal obs c sd ed reqs = (Inr res, reqs')
           \<Longrightarrow> res = PyList []"
  unfolding literal_string_branch_def literal_typed_branch_def attribute_string_branch_def
    attribute_typed_branch_def
  by (auto dest!: bind_io_Inr get_feature_no_features [OF nf]
      simp: lift_err_eq has_response_def split: if_splits)

lemma no_features_trajectory:
  assumes nf: "\<forall>doc. json_features env doc = Inr []"
    and "wfs_get_trajectory env pool ft temporal wkt obs gp c sd ed reqs = (Inr res, reqs')"
    and "reqs' \<noteq> reqs"
  shows "res = PyList []"
  using assms(2,3) unfolding wfs_get_trajectory_def
  by (auto dest!: bind_io_Inr no_features_branches [OF nf]
      simp: lift_err_eq Let_def split: if_splits)

lemma mock_dates:
  "get_date_from_str ''2017'' False = Inr \<lparr>year = 2017, month = 1, day = 1\<rparr>"
  "get_date_from_str ''2018'' False = Inr \<lparr>year = 2018, month = 1, day = 1\<rparr>"
  "get_date_from_str ''2016'' False = Inr \<lparr>year = 2016, month = 1, day = 1\<rparr>"
  by (simp_all add: date_defs)




text \<open>
  C5: in the branch for a classification that is not Literal and a temporal kind STRING,
  when the parsed start bound is after the parsed observation value, or the observation
  value is after the parsed end bound, the result is \<open>None\<close> and no request has been
  issued.
\<close>

theorem C5_short_circuit_without_request:
  assumes kind: "get_type c \<noteq> ''Literal''"
    and tt: "getitem temporal ''type'' = Inr ''STRING''"
    and srid: "getitem gp ''srid'' = Inr srid"
    and tp: "getitem obs ''temporal_property'' = Inr tp"
    and t: "get_date_from_str tp False = Inr t"
  shows "(sd = Some ss \<and> ss \<noteq> [] \<and> get_date_from_str ss False = Inr s \<and> date_less t s
           \<longrightarrow> wfs_get_trajectory env pool ft temporal wkt obs gp c sd ed reqs
                 = (Inr PyNone, reqs))
    \<and> ((\<not> truthy sd
          \<or> (\<exists>ss s. sd = Some ss \<and> get_date_from_str ss False = Inr s \<and> \<not> date_less t s))
         \<and> ed = Some es \<and> es \<noteq> [] \<and> get_date_from_str es False = Inr e \<and> date_less e t
           \<longrightarrow> wfs_get_trajectory env pool ft temporal wkt obs gp c sd ed reqs
                 = (Inr PyNone, reqs))"
proof (intro conjI impI)
  assume "sd = Some ss \<and> ss \<noteq> [] \<and> get_date_from_str ss False = Inr s \<and> date_less t s"
  then have "excluded_by_bounds t sd ed = Inr True"
    by (auto intro: excluded_before_start)
  with kind tt srid tp t
  show "wfs_get_trajectory env pool ft temporal wkt obs gp c sd ed reqs = (Inr PyNone, reqs)"
    by (rule attribute_string_excluded)
next
  assume a: "(\<not> truthy sd
          \<or> (\<exists>ss s. sd = Some ss \<and> get_date_from_str ss False = Inr s \<and> \<not> date_less t s))
         \<and> ed = Some es \<and> es \<noteq> [] \<and> get_date_from_str es False = Inr e \<and> date_less e t"
  then have "excluded_by_bounds t sd (Some es) = Inr True"
    by (intro excluded_after_end) blast+
  with a have "excluded_by_bounds t sd ed = Inr True" by simp
  with kind tt srid tp t
  show "wfs_get_trajectory env pool ft temporal wkt obs gp c sd ed reqs = (Inr PyNone, reqs)"
    by (rule attribute_string_excluded)
qed

theorem C5_short_circuit_witness:
  "wfs_get_trajectory (mock_env [[(''cid'', ''7'')]]) mock_pool ''prodes''
       (mock_temporal ''STRING'') ''POINT (1 2)'' mock_obs mock_geom_property
       (mock_class ''Attribute'') (Some ''2018'') None [] = (Inr PyNone, [])
   \<and> wfs_get_trajectory (mock_env [[(''cid'', ''7'')]]) mock_pool ''prodes''
       (mock_temporal ''STRING'') ''POINT (1 2)'' mock_obs mock_geom_property
       (mock_class ''Attribute'') None (Some ''2016'') [] = (Inr PyNone, [])"
proof -
  have kind: "get_type (mock_class ''Attribute'') \<noteq> ''Literal''"
    by (simp add: mock_class_def)
  have tt: "getitem (mock_temporal ''STRING'') ''type'' = Inr ''STRING''"
    by (simp add: mock_temporal_def getitem_def)
  have srid: "getitem mock_geom_property ''srid'' = Inr ''4326''"
    by (simp add: mock_geom_property_def getitem_def)
  have tp: "getitem mock_obs ''temporal_property'' = Inr ''2017''"
    by (simp add: mock_obs_def getitem_def)
  note t = mock_dates(1)
  have less1: "date_less \<lparr>year = 2017, month = 1, day = 1\<rparr> \<lparr>year = 2018, month = 1, day = 1\<rparr>"
    by (simp add: date_less_def)
  have less2: "date_less \<lparr>year = 2016, month = 1, day = 1\<rparr> \<lparr>year = 2017, month = 1, day = 1\<rparr>"
    by (simp add: date_less_def)
  from C5_short_circuit_without_request [OF kind tt srid tp t,
      where sd = "Some ''2018''" and ss = "''2018''" and ed = None
        and s = "\<lparr>year = 2018, month = 1, day = 1\<rparr>" and reqs = "[]"]
    mock_dates(2) less1
  have a: "wfs_get_trajectory (mock_env [[(''cid'', ''7'')]]) mock_pool ''prodes''
       (mock_temporal ''STRING'') ''POINT (1 2)'' mock_obs mock_geom_property
       (mock_class ''Attribute'') (Some ''2018'') None [] = (Inr PyNone, [])"
    by simp
  from C5_short_circuit_without_request [OF kind tt srid tp t,
      where sd = None and ed = "Some ''2016''" and es = "''2016''"
        and e = "\<lparr>year = 2016, month = 1, day = 1\<rparr>" and reqs = "[]"]
    mock_dates(3) less2
  have b: "wfs_get_trajectory (mock_env [[(''cid'', ''7'')]]) mock_pool ''prodes''
       (mock_temporal ''STRING'') ''POINT (1 2)'' mock_obs mock_geom_property
       (mock_class ''Attribute'') None (Some ''2016'') [] = (Inr PyNone, [])"
    by (simp add: truthy_def)
  from a b show ?thesis by blast
qed

text \<open>
  C10: the operation has two values for absence. When the local filter of the branch for
  a non-Literal classification and a STRING temporal kind excludes the observation, it
  returns \<open>None\<close>; when a query was executed and matched no feature, in whichever branch,
  it returns the empty list; and the two values differ.
\<close>

theorem C10_two_absence_values:
  "(get_type c \<noteq> ''Literal'' \<and> getitem temporal ''type'' = Inr ''STRING''
      \<and> getitem gp ''srid'' = Inr srid \<and> getitem obs ''temporal_property'' = Inr tp
      \<and> get_date_from_str tp False = Inr t \<and> excluded_by_bounds t sd ed = Inr True
     \<longrightarrow> wfs_get_trajectory env pool ft temporal wkt obs gp c sd ed reqs = (Inr PyNone, reqs))
   \<and> ((\<forall>doc. json_features env doc = Inr [])
       \<and> wfs_get_trajectory env pool ft temporal wkt obs gp c sd ed reqs = (Inr res, reqs')
       \<and> reqs' \<noteq> reqs
     \<longrightarrow> res = PyList [])
   \<and> PyNone \<noteq> PyList []"
  using attribute_string_excluded [of c temporal gp srid obs tp t sd ed env pool ft wkt reqs]
    no_features_trajectory [of env pool ft temporal wkt obs gp c sd ed reqs res reqs']
  by blast

theorem C10_two_absence_values_witness:
  "wfs_get_trajectory (mock_env []) mock_pool ''prodes''
       (mock_temporal ''STRING'') ''POINT (1 2)'' mock_obs mock_geom_property
       (mock_class ''Attribute'') (Some ''2018'') None [] = (Inr PyNone, [])
   \<and> fst (wfs_get_trajectory (mock_env []) mock_pool ''prodes''
       (mock_temporal ''STRING'') ''POINT (1 2)'' mock_obs mock_geom_property
       (mock_class ''Attribute'') None None []) = Inr (PyList [])"
proof -
  have kind: "get_type (mock_class ''Attribute'') \<noteq> ''Literal''"
    by (simp add: mock_class_def)
  have tt: "getitem (mock_temporal ''STRING'') ''type'' = Inr ''STRING''"
    by (simp add: mock_temporal_def getitem_def)
  have srid: "getitem mock_geom_property ''srid'' = Inr ''4326''"
    by (simp add: mock_geom_property_def getitem_def)
  have tp: "getitem mock_obs ''temporal_property'' = Inr ''2017''"
    by (simp add: mock_obs_def getitem_def)
  have ex: "excluded_by_bounds \<lparr>year = 2017, month = 1, day = 1\<rparr> (Some ''2018'') None = Inr True"
    by (simp add: excluded_by_bounds_def with_bound_def bind_err_def mock_dates date_less_def)
  have nf: "\<forall>doc. json_features (mock_env []) doc = Inr []"
    by (simp add: mock_env_def)
  let ?run = "wfs_get_trajectory (mock_env []) mock_pool ''prodes''
       (mock_temporal ''STRING'') ''POINT (1 2)'' mock_obs mock_geom_property
       (mock_class ''Attribute'') None None []"
  have r: "?run = (Inr (PyList []), snd ?run)"
    by code_simp
  have ne: "snd ?run \<noteq> []"
    by code_simp
  from C10_two_absence_values [where env = "mock_env []" and pool = mock_pool
      and ft = "''prodes''" and temporal = "mock_temporal ''STRING''"
      and wkt = "''POINT (1 2)''" and obs = mock_obs and gp = mock_geom_property
      and c = "mock_class ''Attribute''" and sd = "Some ''2018''" and ed = None
      and reqs = "[]" and srid = "''4326''" and tp = "''2017''"
      and t = "\<lparr>year = 2017, month = 1, day = 1\<rparr>"]
    kind tt srid tp mock_dates(1) ex
  have a: "wfs_get_trajectory (mock_env []) mock_pool ''prodes''
       (mock_temporal ''STRING'') ''POINT (1 2)'' mock_obs mock_geom_property
       (mock_class ''Attribute'') (Some ''2018'') None [] = (Inr PyNone, [])"
    by blast
  from C10_two_absence_values [where env = "mock_env []" and pool = mock_pool
      and ft = "''prodes''" and temporal = "mock_temporal ''STRING''"
      and wkt = "''POINT (1 2)''" and obs = mock_obs and gp = mock_geom_property
      and c = "mock_class ''Attribute''" and sd = None and ed = None
      and reqs = "[]" and res = "PyList []" and reqs' = "snd ?run"] nf r ne
  have "fst ?run = Inr (PyList [])" by (metis fst_conv)
  with a show ?thesis by simp
qed

section \<open>Properties of the raster-service backend\<close>

lemmas mock_wcs_defs =
  mock_dataset_def mock_wcs_env_def mock_wcs_def mock_key_def empty_state_def
  mock_kwargs_def mock_datasource_def

subsection \<open>The cache of \<open>get_image\<close>\<close>

lemma map_of_filter_other:
  "k \<noteq> k' \<Longrightarrow> map_of (filter (\<lambda>p. fst p \<noteq> k') c) k = map_of c k"
  by (induction c) auto

lemma rank_filter_le:
  "k \<noteq> k' \<Longrightarrow> rank k (filter (\<lambda>p. fst p \<noteq> k') c) \<le> rank k c"
  by (induction c) (auto simp: rank_def)

lemma map_of_butlast:
  "map_of c k = Some v \<Longrightarrow> Suc (rank k c) < length c
   \<Longrightarrow> map_of (butlast c) k = Some v \<and> rank k (butlast c) = rank k c"
  by (induction c) (auto simp: rank_def split: if_splits)

text \<open>
  One more call, on whatever key, moves an entry back by one position at most, and an
  entry that is not among the last of a full cache stays.
\<close>

lemma get_image_keeps:
  assumes inv: "map_of (cache st) k = Some v" "rank k (cache st) \<le> j" and j: "j < 127"
  shows "map_of (cache (snd (get_image env k' st))) k = Some v
       \<and> rank k (cache (snd (get_image env k' st))) \<le> Suc j"
proof (cases "k' = k")
  case True
  with inv show ?thesis by (simp add: get_image_def rank_def)
next
  case False
  then have ne: "k \<noteq> k'" by simp
  show ?thesis
  proof (cases "map_of (cache st) k'")
    case (Some v')
    with inv ne rank_filter_le [OF ne, of "cache st"] show ?thesis
      by (simp add: get_image_def map_of_filter_other rank_def)
  next
    case None
    show ?thesis
    proof (cases "get_image_body env k' (fetched st)")
      case (Pair r reqs')
      show ?thesis
      proof (cases r)
        case (Inl e)
        with None Pair inv show ?thesis by (simp add: get_image_def)
      next
        case (Inr v')
        show ?thesis
        proof (cases "length (cache st) \<ge> maxsize")
          case True
          with inv j have "Suc (rank k (cache st)) < length (cache st)"
            by (simp add: maxsize_def)
          from map_of_butlast [OF inv(1) this] None Pair Inr True inv ne show ?thesis
            by (simp add: get_image_def rank_def)
        next
          case False
          with None Pair Inr inv ne show ?thesis
            by (simp add: get_image_def rank_def)
        qed
      qed
    qed
  qed
qed

lemma get_images_keeps:
  "map_of (cache st) k = Some v \<Longrightarrow> rank k (cache st) \<le> j \<Longrightarrow> j + length ks \<le> 127
   \<Longrightarrow> map_of (cache (get_images env ks st)) k = Some v"
proof (induction ks arbitrary: st j)
  case Nil
  then show ?case by simp
next
  case (Cons k' ks)
  from Cons.prems have j: "j < 127" by simp
  from get_image_keeps [OF Cons.prems(1,2) j, of env k']
  have a: "map_of (cache (snd (get_image env k' st))) k = Some v"
    and b: "rank k (cache (snd (get_image env k' st))) \<le> Suc j" by simp_all
  from Cons.prems have "Suc j + length ks \<le> 127" by simp
  from Cons.IH [OF a b this] show ?case by simp
qed

lemma get_image_stores:
  "get_image env k st = (Inr v, st1)
   \<Longrightarrow> map_of (cache st1) k = Some v \<and> rank k (cache st1) = 0"
  by (auto simp: get_image_def rank_def split: option.splits prod.splits sum.splits)

lemma get_image_hit:
  "map_of (cache st) k = Some v \<Longrightarrow>
   \<exists>st'. get_image env k st = (Inr v, st') \<and> fetched st' = fetched st"
  by (simp add: get_image_def)

text \<open>Calls on keys that are not in a cache with room are all misses.\<close>

lemma get_images_append:
  "get_images env (xs @ ys) st = get_images env ys (get_images env xs st)"
  by (induction xs arbitrary: st) auto

lemma get_image_miss:
  assumes "map_of (cache st) k = None"
    and "get_image_body env k (fetched st) = (Inr v, fetched st @ [u])"
  shows "get_image env k st
     = (Inr v, \<lparr>cache = (k, v) # (if length (cache st) \<ge> maxsize then butlast (cache st)
                                   else cache st),
               fetched = fetched st @ [u]\<rparr>)"
  using assms by (simp add: get_image_def)

lemma get_images_misses:
  assumes body: "\<forall>k\<in>set ks. \<forall>reqs. get_image_body env k reqs = (Inr v, reqs @ [url k])"
    and "distinct ks" and "set ks \<inter> fst ` set (cache st) = {}"
    and "length (cache st) + length ks \<le> maxsize"
  shows "get_images env ks st
     = \<lparr>cache = rev (map (\<lambda>k. (k, v)) ks) @ cache st, fetched = fetched st @ map url ks\<rparr>"
  using assms
proof (induction ks arbitrary: st)
  case Nil
  then show ?case by simp
next
  case (Cons k ks)
  from Cons.prems(3) have fresh: "map_of (cache st) k = None"
    by (auto simp: map_of_eq_None_iff)
  from Cons.prems(1) have b: "get_image_body env k (fetched st) = (Inr v, fetched st @ [url k])"
    by simp
  from Cons.prems(4) have room: "\<not> length (cache st) \<ge> maxsize" by simp
  let ?st' = "\<lparr>cache = (k, v) # cache st, fetched = fetched st @ [url k]\<rparr>"
  from get_image_miss [OF fresh b] room have step: "get_image env k st = (Inr v, ?st')"
    by simp
  have "get_images env ks ?st'
     = \<lparr>cache = rev (map (\<lambda>k. (k, v)) ks) @ cache ?st', fetched = fetched ?st' @ map url ks\<rparr>"
  proof (rule Cons.IH)
    show "\<forall>k\<in>set ks. \<forall>reqs. get_image_body env k reqs = (Inr v, reqs @ [url k])"
      using Cons.prems(1) by simp
    show "distinct ks" using Cons.prems(2) by simp
    show "set ks \<inter> fst ` set (cache ?st') = {}" using Cons.prems(2,3) by auto
    show "length (cache ?st') + length ks \<le> maxsize" using Cons.prems(4) by simp
  qed
  with step show ?case by simp
qed

lemma mock_body:
  "get_image_body mock_wcs_env (mock_key t) reqs
     = (Inr (Some 7), reqs @ [get_image_url mock_wcs_env (mock_key t)])"
  by (simp add: get_image_body_def open_image_def get_image_raw_def mock_wcs_env_def
      mock_dataset_def mock_key_def transform_latlong_to_rowcol_def py_div_def bind_err_def
      py_int_def)

lemma mock_key_inj: "(mock_key s = mock_key t) = (s = t)"
  by (simp add: mock_key_def)

lemma other_keys_split:
  "other_keys = map (\<lambda>n. mock_key (replicate n CHR ''a'')) [1..<128]
      @ [mock_key (replicate 128 CHR ''a'')]"
proof -
  have "[1..<129] = [1..<128] @ [128::nat]"
    using upt_Suc_append [of 1 128] by simp
  then show ?thesis by (simp add: other_keys_def)
qed

lemma not_2017:
  "replicate n CHR ''a'' \<noteq> ''2017''" "''2017'' \<noteq> replicate n CHR ''a''"
  by (cases n; auto)+


lemma first_keys_distinct:
  "distinct (mock_key ''2017'' # map (\<lambda>n. mock_key (replicate n CHR ''a'')) [1..<128])"
proof -
  have "inj_on (\<lambda>n. mock_key (replicate n CHR ''a'')) (set [1..<128])"
    by (auto simp: inj_on_def mock_key_inj)
  then have "distinct (map (\<lambda>n. mock_key (replicate n CHR ''a'')) [1..<128])"
    by (simp add: distinct_map)
  moreover have "mock_key ''2017'' \<notin> set (map (\<lambda>n. mock_key (replicate n CHR ''a'')) [1..<128])"
    by (auto simp: mock_key_inj not_2017)
  ultimately show ?thesis by simp
qed

text \<open>
  C6 (as stated): of any two calls of \<open>get_image\<close> with the same arguments in one
  process, the second issues no fetch. The cache holds 128 entries: after a first call
  and 128 calls with other arguments the first entry is gone, and a call with the first
  arguments fetches their URL a second time.
\<close>

theorem C6_evicted_after_128_counterexample:
  "fetched (snd (get_image mock_wcs_env (mock_key ''2017'')
      (get_images mock_wcs_env (mock_key ''2017'' # other_keys) empty_state)))
     = get_image_url mock_wcs_env (mock_key ''2017'')
         # map (get_image_url mock_wcs_env) other_keys
         @ [get_image_url mock_wcs_env (mock_key ''2017'')]
   \<and> length other_keys = 128"
proof -
  let ?g = "\<lambda>n. mock_key (replicate n CHR ''a'')"
  let ?k0 = "mock_key ''2017''"
  let ?u = "get_image_url mock_wcs_env"
  let ?f = "\<lambda>k. (k, Some (7::int))"
  let ?ks = "?k0 # map ?g [1..<128]"
  let ?st2 = "\<lparr>cache = rev (map ?f ?ks), fetched = map ?u ?ks\<rparr>"
  have body: "\<forall>k\<in>set ?ks. \<forall>reqs. get_image_body mock_wcs_env k reqs
      = (Inr (Some 7), reqs @ [?u k])"
    by (auto simp: mock_body)
  have fresh: "set ?ks \<inter> fst ` set (cache empty_state) = {}"
    by (simp add: empty_state_def)
  have room: "length (cache empty_state) + length ?ks \<le> maxsize"
    by (simp add: empty_state_def maxsize_def)
  from get_images_misses [OF body first_keys_distinct fresh room]
  have run1: "get_images mock_wcs_env ?ks empty_state = ?st2"
    by (simp add: empty_state_def)
  have c2: "cache ?st2 = rev (map ?f (map ?g [1..<128])) @ [?f ?k0]"
    and f2: "fetched ?st2 = map ?u ?ks"
    by simp_all
  have len2: "length (cache ?st2) \<ge> maxsize"
    by (simp add: c2 maxsize_def)
  have fresh128: "map_of (cache ?st2) (?g 128) = None"
    unfolding c2
    by (auto simp: map_of_eq_None_iff mock_key_inj image_iff not_2017)
  let ?st3 = "\<lparr>cache = ?f (?g 128) # rev (map ?f (map ?g [1..<128])),
              fetched = map ?u ?ks @ [?u (?g 128)]\<rparr>"
  have b128: "get_image_body mock_wcs_env (?g 128) (fetched ?st2)
      = (Inr (Some 7), fetched ?st2 @ [?u (?g 128)])"
    by (rule mock_body)
  from get_image_miss [OF fresh128 b128] len2
  have step128: "get_image mock_wcs_env (?g 128) ?st2 = (Inr (Some 7), ?st3)"
    by (simp add: c2 f2 butlast_append)
  have gone: "map_of (cache ?st3) ?k0 = None"
    by (auto simp: map_of_eq_None_iff mock_key_inj image_iff not_2017)
  have b0: "get_image_body mock_wcs_env ?k0 (fetched ?st3)
      = (Inr (Some 7), fetched ?st3 @ [?u ?k0])"
    by (rule mock_body)
  from get_image_miss [OF gone b0]
  have again: "fetched (snd (get_image mock_wcs_env ?k0 ?st3)) = fetched ?st3 @ [?u ?k0]"
    by simp
  have "get_images mock_wcs_env (?k0 # other_keys) empty_state
      = get_images mock_wcs_env [?g 128] (get_images mock_wcs_env ?ks empty_state)"
    using get_images_append [of mock_wcs_env ?ks "[?g 128]" empty_state]
    by (simp add: other_keys_split)
  with run1 step128 have all: "get_images mock_wcs_env (?k0 # other_keys) empty_state = ?st3"
    by simp
  have others: "length other_keys = 128"
    by (simp add: other_keys_def)
  from all again others show ?thesis
    by (simp add: other_keys_split)
qed

text \<open>
  C6 (amended): when a call of \<open>get_image\<close> has returned a value (\<open>None\<close> included) and
  at most 127 further calls, with any arguments, have been made since, a call with the
  same arguments returns the same value and issues no fetch. The memo is an LRU cache of
  128 entries, and a call that raises stores nothing.
\<close>

theorem C6_cache_hit_within_127_calls:
  assumes first: "get_image env k st = (Inr v, st1)" and few: "length ks \<le> 127"
  shows "\<exists>st3. get_image env k (get_images env ks st1) = (Inr v, st3)
     \<and> fetched st3 = fetched (get_images env ks st1)"
proof -
  from get_image_stores [OF first]
  have a: "map_of (cache st1) k = Some v" and b: "rank k (cache st1) \<le> 0" by simp_all
  from few have "0 + length ks \<le> 127" by simp
  from get_images_keeps [OF a b this] get_image_hit show ?thesis by blast
qed

theorem C6_cache_hit_witness:
  "\<exists>st3. get_image mock_wcs_env (mock_key ''2017'')
            (get_images mock_wcs_env [mock_key ''2018'', mock_key ''2019'']
               (snd (get_image mock_wcs_env (mock_key ''2017'') empty_state)))
          = (Inr (Some 7), st3)
     \<and> fetched st3
          = fetched (get_images mock_wcs_env [mock_key ''2018'', mock_key ''2019'']
               (snd (get_image mock_wcs_env (mock_key ''2017'') empty_state)))"
proof -
  have first: "get_image mock_wcs_env (mock_key ''2017'') empty_state
      = (Inr (Some 7), snd (get_image mock_wcs_env (mock_key ''2017'') empty_state))"
    by code_simp
  have few: "length [mock_key ''2018'', mock_key ''2019''] \<le> 127" by simp
  from C6_cache_hit_within_127_calls [OF first few] show ?thesis .
qed

subsection \<open>The temporal filter of \<open>get_trajectory\<close>\<close>

lemma outside_before_start:
  "tk_start_date kw = Some (Some ss) \<Longrightarrow> ss \<noteq> [] \<Longrightarrow> parse_date ss = Inr s
   \<Longrightarrow> date_less ts s \<Longrightarrow> outside_bounds parse_date ts kw = Inr True"
  by (simp add: outside_bounds_def required_def with_bound_def bind_err_def)

lemma outside_after_end:
  "tk_start_date kw = Some sd
   \<Longrightarrow> \<not> truthy sd \<or> (\<exists>ss s. sd = Some ss \<and> parse_date ss = Inr s \<and> \<not> date_less ts s)
   \<Longrightarrow> tk_end_date kw = Some (Some es) \<Longrightarrow> es \<noteq> [] \<Longrightarrow> parse_date es = Inr e
   \<Longrightarrow> date_less e ts \<Longrightarrow> outside_bounds parse_date ts kw = Inr True"
  by (auto simp: outside_bounds_def required_def with_bound_def bind_err_def truthy_def
      split: option.splits)

lemma outside_returns_none:
  "tk_other kw = [] \<Longrightarrow> tk_time kw = Some tm \<Longrightarrow> parse_date tm = Inr ts
   \<Longrightarrow> outside_bounds parse_date ts kw = Inr True
   \<Longrightarrow> wcs_get_trajectory env parse_date self kw st = (Inr None, st)"
  by (simp add: wcs_get_trajectory_def bind_io_def lift_err_def required_def)

text \<open>
  C7: when the parsed observation time is strictly before the parsed start bound, or
  strictly after the parsed end bound, \<open>get_trajectory\<close> returns \<open>None\<close> and the state
  is the one it started from: no fetch was issued and the cache was not consulted.
\<close>

theorem C7_filter_before_fetch:
  assumes names: "tk_other kw = []"
    and tm: "tk_time kw = Some tm"
    and ts: "parse_date tm = Inr ts"
  shows "(tk_start_date kw = Some (Some ss) \<and> ss \<noteq> [] \<and> parse_date ss = Inr s
            \<and> date_less ts s
           \<longrightarrow> wcs_get_trajectory env parse_date self kw st = (Inr None, st))
    \<and> (tk_start_date kw = Some sd
         \<and> (\<not> truthy sd
            \<or> (\<exists>ss s. sd = Some ss \<and> parse_date ss = Inr s \<and> \<not> date_less ts s))
         \<and> tk_end_date kw = Some (Some es) \<and> es \<noteq> [] \<and> parse_date es = Inr e
         \<and> date_less e ts
           \<longrightarrow> wcs_get_trajectory env parse_date self kw st = (Inr None, st))"
proof (intro conjI impI)
  assume "tk_start_date kw = Some (Some ss) \<and> ss \<noteq> [] \<and> parse_date ss = Inr s
            \<and> date_less ts s"
  then have "outside_bounds parse_date ts kw = Inr True"
    by (auto intro: outside_before_start)
  with names tm ts show "wcs_get_trajectory env parse_date self kw st = (Inr None, st)"
    by (rule outside_returns_none)
next
  assume a: "tk_start_date kw = Some sd
         \<and> (\<not> truthy sd
            \<or> (\<exists>ss s. sd = Some ss \<and> parse_date ss = Inr s \<and> \<not> date_less ts s))
         \<and> tk_end_date kw = Some (Some es) \<and> es \<noteq> [] \<and> parse_date es = Inr e
         \<and> date_less e ts"
  then have "outside_bounds parse_date ts kw = Inr True"
    by (intro outside_after_end [where sd = sd and es = es and e = e]) blast+
  with names tm ts show "wcs_get_trajectory env parse_date self kw st = (Inr None, st)"
    by (rule outside_returns_none)
qed

theorem C7_filter_before_fetch_witness:
  "wcs_get_trajectory mock_wcs_env (\<lambda>s. get_date_from_str s False) mock_datasource
     (mock_kwargs (Some ''2018'') None) empty_state = (Inr None, empty_state)
   \<and> wcs_get_trajectory mock_wcs_env (\<lambda>s. get_date_from_str s False) mock_datasource
     (mock_kwargs None (Some ''2016'')) empty_state = (Inr None, empty_state)"
proof -
  let ?parse = "\<lambda>s. get_date_from_str s False"
  let ?kw1 = "mock_kwargs (Some ''2018'') None"
  let ?kw2 = "mock_kwargs None (Some ''2016'')"
  have names1: "tk_other ?kw1 = []" and tm1: "tk_time ?kw1 = Some ''2017''"
    and names2: "tk_other ?kw2 = []" and tm2: "tk_time ?kw2 = Some ''2017''"
    by (simp_all add: mock_kwargs_def)
  have ts: "?parse ''2017'' = Inr \<lparr>year = 2017, month = 1, day = 1\<rparr>"
    by (simp add: date_defs)
  have s18: "?parse ''2018'' = Inr \<lparr>year = 2018, month = 1, day = 1\<rparr>"
    by (simp add: date_defs)
  have s16: "?parse ''2016'' = Inr \<lparr>year = 2016, month = 1, day = 1\<rparr>"
    by (simp add: date_defs)
  have less1: "date_less \<lparr>year = 2017, month = 1, day = 1\<rparr> \<lparr>year = 2018, month = 1, day = 1\<rparr>"
    by (simp add: date_less_def)
  have less2: "date_less \<lparr>year = 2016, month = 1, day = 1\<rparr> \<lparr>year = 2017, month = 1, day = 1\<rparr>"
    by (simp add: date_less_def)
  have sd1: "tk_start_date ?kw1 = Some (Some ''2018'')"
    and sd2: "tk_start_date ?kw2 = Some None"
    and ed2: "tk_end_date ?kw2 = Some (Some ''2016'')"
    by (simp_all add: mock_kwargs_def)
  from C7_filter_before_fetch [where parse_date = ?parse and kw = ?kw1, OF names1 tm1 ts,
      where ss = "''2018''" and s = "\<lparr>year = 2018, month = 1, day = 1\<rparr>"
        and env = mock_wcs_env and self = mock_datasource and st = empty_state]
    sd1 s18 less1
  have a: "wcs_get_trajectory mock_wcs_env ?parse mock_datasource ?kw1 empty_state
      = (Inr None, empty_state)"
    by simp
  from C7_filter_before_fetch [where parse_date = ?parse and kw = ?kw2, OF names2 tm2 ts,
      where sd = None and es = "''2016''" and e = "\<lparr>year = 2016, month = 1, day = 1\<rparr>"
        and env = mock_wcs_env and self = mock_datasource and st = empty_state]
    sd2 ed2 s16 less2
  have b: "wcs_get_trajectory mock_wcs_env ?parse mock_datasource ?kw2 empty_state
      = (Inr None, empty_state)"
    by (simp add: truthy_def)
  from a b show ?thesis by blast
qed

subsection \<open>The pixel index\<close>




section \<open>Properties of backend construction\<close>

lemma make_unknown:
  "dsType \<notin> recognized \<Longrightarrow> make connect dsType ident connInfo = Inl (KeyError dsType)"
  by (simp add: make_def getitem_def factorys_def recognized_def bind_err_def)

lemma insert_datasource_unknown:
  assumes "getitem connInfo ''type'' = Inr tag" and "tag \<notin> recognized"
  shows "\<exists>e. insert_datasource connect registry dsType connInfo = Inl e"
  using assms make_unknown [of tag connect]
  by (auto simp: insert_datasource_def bind_err_def split: sum.splits)

lemma insert_group_unknown:
  assumes "ds_info \<in> set infos" and "getitem ds_info ''type'' = Inr tag"
    and "tag \<notin> recognized"
  shows "\<exists>e. insert_group connect registry dstype infos = Inl e"
  using assms
proof (induction infos arbitrary: registry)
  case Nil
  then show ?case by simp
next
  case (Cons a infos)
  show ?case
  proof (cases "insert_datasource connect registry dstype a")
    case (Inl e)
    then show ?thesis by simp
  next
    case (Inr registry')
    with insert_datasource_unknown [OF Cons.prems(2,3), of connect registry dstype]
    have "ds_info \<noteq> a" by auto
    with Cons.prems(1) have "ds_info \<in> set infos" by simp
    from Cons.IH [OF this Cons.prems(2,3)] Inr show ?thesis by simp
  qed
qed

lemma insert_groups_unknown:
  assumes "(dstype, infos) \<in> set groups" and "ds_info \<in> set infos"
    and "getitem ds_info ''type'' = Inr tag" and "tag \<notin> recognized"
  shows "\<exists>e. insert_groups connect registry groups = Inl e"
  using assms
proof (induction groups arbitrary: registry)
  case Nil
  then show ?case by simp
next
  case (Cons g groups)
  obtain t l where g: "g = (t, l)" by (cases g)
  show ?case
  proof (cases "insert_group connect registry t l")
    case (Inl e)
    with g show ?thesis by simp
  next
    case (Inr registry')
    with insert_group_unknown [OF Cons.prems(2,3,4), of connect registry dstype]
    have "(dstype, infos) \<noteq> (t, l)" by auto
    with Cons.prems(1) g have "(dstype, infos) \<in> set groups" by auto
    from Cons.IH [OF this Cons.prems(2,3,4)] Inr g show ?thesis by simp
  qed
qed

text \<open>
  C9: a backend-type tag outside POSTGIS, WCS and WFS makes the construction fail when the
  registry is loaded: \<open>make\<close> raises (a \<open>KeyError\<close> on the tag), so does
  \<open>insert_datasource\<close>, and \<open>load_all\<close> over a configuration that holds such an entry
  ends in an error instead of a registry.
\<close>

theorem C9_unknown_tag_fails_at_load:
  assumes tag: "getitem ds_info ''type'' = Inr tag" and unknown: "tag \<notin> recognized"
  shows "make connect tag ident ds_info = Inl (KeyError tag)
    \<and> (\<exists>e. insert_datasource connect registry dstype ds_info = Inl e)
    \<and> ((dstype, infos) \<in> set datasources \<and> ds_info \<in> set infos
         \<longrightarrow> (\<exists>e. load_all connect (Some datasources) = Inl e))"
  using make_unknown [OF unknown, of connect ident ds_info]
    insert_datasource_unknown [OF tag unknown, of connect registry dstype]
    insert_groups_unknown [OF _ _ tag unknown, of dstype infos datasources connect
      initial_registry]
  by (simp add: load_all_def)

theorem C9_unknown_tag_witness:
  "make (\<lambda>_. None :: unit option) ''MYSQL'' ''db1'' [(''type'', ''MYSQL''), (''id'', ''db1'')]
     = Inl (KeyError ''MYSQL'')
   \<and> (\<exists>e. load_all (\<lambda>_. None :: unit option)
         (Some [(''dbms_source'', [[(''type'', ''POSTGIS''), (''id'', ''pg'')],
                                   [(''type'', ''MYSQL''), (''id'', ''db1'')]])]) = Inl e)"
proof -
  let ?info = "[(''type'', ''MYSQL''), (''id'', ''db1'')]"
  let ?infos = "[[(''type'', ''POSTGIS''), (''id'', ''pg'')], ?info]"
  have tag: "getitem ?info ''type'' = Inr ''MYSQL''" by (simp add: getitem_def)
  have unknown: "''MYSQL'' \<notin> recognized" by (simp add: recognized_def)
  have mem: "(''dbms_source'', ?infos) \<in> set [(''dbms_source'', ?infos)] \<and> ?info \<in> set ?infos"
    by simp
  from C9_unknown_tag_fails_at_load [OF tag unknown, where connect = "\<lambda>_. None :: unit option"
      and ident = "''db1''" and dstype = "''dbms_source''" and infos = ?infos
      and datasources = "[(''dbms_source'', ?infos)]"] mem
  show ?thesis by blast
qed

text \<open>A recognized tag does construct a backend when the registry is loaded.\<close>

lemma load_all_postgis:
  "load_all (\<lambda>_. None :: unit option)
     (Some [(''dbms_source'', [[(''type'', ''POSTGIS''), (''id'', ''pg'')]])])
   = Inr [(''webservice_source'', []),
          (''dbms_source'',
             [PostGisDataSource ''pg'' [(''type'', ''POSTGIS''), (''id'', ''pg'')] None]),
          (''file_source'', [])]"
  by (simp add: load_all_def initial_registry_def insert_datasource_def make_def
      eval_class_def factorys_def getitem_def bind_err_def)

end
